theory Spec2Isabelle
  imports Complex_Main
begin

section \<open>Data model\<close>

text \<open>
  The practice feature of the opening trainer: \<^verbatim>\<open>src/features/files/utils/opening.ts\<close>
  builds a deck of cards from the move tree, picks the next card to review, grades a
  card through the scheduling engine and computes the statistics shown in the panel;
  \<^verbatim>\<open>src/components/panels/practice/PracticePanel.tsx\<close> seeds and resets the deck.

  A time stamp (a JavaScript \<^verbatim>\<open>Date\<close>) is its number of milliseconds since the epoch.
  The scheduling state of a card is the engine's \<^verbatim>\<open>Card\<close> (library ts-fsrs); the code
  reads only its fields \<^verbatim>\<open>due\<close> and \<^verbatim>\<open>reps\<close> (a count of repetitions), the other fields
  are owned by the engine and kept as one opaque component.
\<close>

type_synonym Date = int

record 'e Card =
  due :: Date
  reps :: nat
  engine_fields :: 'e

text \<open>\<^verbatim>\<open>Position\<close>: one card of the deck. The field \<^verbatim>\<open>card\<close> is named \<open>card_p\<close>.\<close>

record 'e Position =
  fen :: string
  answer :: string
  card_p :: "'e Card"

text \<open>
  A log entry of the deck is the engine's review log with the graded position's FEN
  added: \<^verbatim>\<open>{ ...log, fen: data.positions[i].fen }\<close>.
\<close>

record 'l LogEntry =
  review_log :: 'l
  fen_log :: string

text \<open>\<^verbatim>\<open>PracticeData\<close>: the deck held by the store.\<close>

record ('e, 'l) PracticeData =
  positions :: "'e Position list"
  logs :: "'l LogEntry list"

datatype Color = White | Black

text \<open>
  A node of the move tree (\<^verbatim>\<open>TreeNode\<close> of \<^verbatim>\<open>@/utils/treeReducer\<close>), with the fields
  \<^verbatim>\<open>buildFromTree\<close> reads: \<^verbatim>\<open>fen\<close> (named \<open>fen_node\<close>), \<^verbatim>\<open>san\<close> (the notation of the move
  leading to the node, \<open>None\<close> for \<^verbatim>\<open>null\<close>), \<^verbatim>\<open>halfMoves\<close> (the ply count) and \<^verbatim>\<open>children\<close>.
\<close>

datatype TreeNode =
  TreeNode (fen_node: string) (san: "string option") (halfMoves: nat) (children: "TreeNode list")

text \<open>What the tree iterator yields: the path of a node (child indices from the root) and the node.\<close>

record IterItem =
  position :: "nat list"
  node :: TreeNode

section \<open>Collaborators of the deck builder\<close>

text \<open>
  Modelled from the spec: \<^verbatim>\<open>isPrefix\<close> of \<^verbatim>\<open>@/utils/misc\<close> is not among the sources. The
  specification defines it: path A is a prefix of path B if every element of A equals
  the corresponding element of B and length(A) \<le> length(B).
\<close>

fun isPrefix :: "nat list \<Rightarrow> nat list \<Rightarrow> bool" where
  "isPrefix [] ys = True"
| "isPrefix (x # xs) [] = False"
| "isPrefix (x # xs) (y # ys) = (x = y \<and> isPrefix xs ys)"

text \<open>
  Modelled from the spec: \<^verbatim>\<open>treeIterator\<close> of \<^verbatim>\<open>@/utils/treeReducer\<close> is not among the
  sources. The specification describes a depth-first pre-order traversal that yields
  every node exactly once with its path, siblings in the tree's stored child order.
  \<open>iterNode\<close> visits a node at a path, \<open>iterChildren\<close> its children from index \<open>i\<close> on.
\<close>

fun iterNode :: "nat list \<Rightarrow> TreeNode \<Rightarrow> IterItem list"
  and iterChildren :: "nat list \<Rightarrow> nat \<Rightarrow> TreeNode list \<Rightarrow> IterItem list" where
  "iterNode pos (TreeNode f s h cs) =
     \<lparr>position = pos, node = TreeNode f s h cs\<rparr> # iterChildren pos 0 cs"
| "iterChildren pos i [] = []"
| "iterChildren pos i (c # cs) = iterNode (pos @ [i]) c @ iterChildren pos (Suc i) cs"

definition treeIterator :: "TreeNode \<Rightarrow> IterItem list" where
  "treeIterator tree = iterNode [] tree"

section \<open>DeckBuilder: buildFromTree\<close>

text \<open>
  JavaScript truthiness of a \<^verbatim>\<open>san\<close>: \<^verbatim>\<open>null\<close> and the empty string are falsy.
\<close>

definition falsy :: "string option \<Rightarrow> bool" where
  "falsy s = (case s of None \<Rightarrow> True | Some t \<Rightarrow> t = [])"

text \<open>
  The loop of \<^verbatim>\<open>buildFromTree\<close> over the items of the iterator, with the array \<^verbatim>\<open>cards\<close>
  as accumulator. \<^verbatim>\<open>createEmptyCard()\<close> is the engine's initialiser (ts-fsrs); called
  without an argument it stamps the new card with the clock, so the model hands it the
  clock reading of the call: \<open>clock k\<close> is the time at which the card with index \<open>k\<close> is
  created.
\<close>

fun buildLoop ::
  "(Date \<Rightarrow> 'e Card) \<Rightarrow> (nat \<Rightarrow> Date) \<Rightarrow> Color \<Rightarrow> nat list \<Rightarrow> IterItem list \<Rightarrow> 'e Position list
    \<Rightarrow> 'e Position list" where
  "buildLoop createEmptyCard clock color start [] cards = cards"
| "buildLoop createEmptyCard clock color start (item # items) cards =
     (case children (node item) of
        [] \<Rightarrow> buildLoop createEmptyCard clock color start items cards
      | child0 # _ \<Rightarrow>
          if isPrefix (position item) start \<or> falsy (san child0)
             \<or> find (\<lambda>c. fen c = fen_node (node item)) cards \<noteq> None
          then buildLoop createEmptyCard clock color start items cards
          else if (color = White \<and> halfMoves (node item) mod 2 = 0)
                  \<or> (color = Black \<and> halfMoves (node item) mod 2 = 1)
          then buildLoop createEmptyCard clock color start items
                 (cards @ [\<lparr>fen = fen_node (node item), answer = the (san child0),
                            card_p = createEmptyCard (clock (length cards))\<rparr>])
          else buildLoop createEmptyCard clock color start items cards)"

definition buildFromTree ::
  "(Date \<Rightarrow> 'e Card) \<Rightarrow> (nat \<Rightarrow> Date) \<Rightarrow> TreeNode \<Rightarrow> Color \<Rightarrow> nat list \<Rightarrow> 'e Position list" where
  "buildFromTree createEmptyCard clock tree color start =
     buildLoop createEmptyCard clock color start (treeIterator tree) []"

section \<open>ReviewScheduler: getStats, getCardForReview, updateCardPerformance\<close>

text \<open>\<^verbatim>\<open>Stats\<close>; its count \<^verbatim>\<open>due\<close> is named \<open>due_n\<close>, \<^verbatim>\<open>nextDue: Date | null\<close> is an option.\<close>

record Stats =
  unseen :: nat
  due_n :: nat
  practiced :: nat
  nextDue :: "Date option"
  total :: nat

text \<open>
  The loop of \<^verbatim>\<open>getStats\<close> over the positions, the object \<^verbatim>\<open>stats\<close> as state; \<open>now\<close> is
  the one \<^verbatim>\<open>new Date()\<close> taken before the loop.
\<close>

fun getStatsLoop :: "Date \<Rightarrow> 'e Position list \<Rightarrow> Stats \<Rightarrow> Stats" where
  "getStatsLoop now [] stats = stats"
| "getStatsLoop now (c # rest) stats =
     (if reps (card_p c) = 0 then getStatsLoop now rest (stats\<lparr>unseen := unseen stats + 1\<rparr>)
      else
        let cardDue = due (card_p c);
            stats1 = (if cardDue \<le> now then stats\<lparr>due_n := due_n stats + 1\<rparr>
                      else stats\<lparr>practiced := practiced stats + 1\<rparr>);
            stats2 = (case nextDue stats1 of
                        None \<Rightarrow> stats1\<lparr>nextDue := Some (due (card_p c))\<rparr>
                      | Some nextDueDate \<Rightarrow>
                          if cardDue < nextDueDate then stats1\<lparr>nextDue := Some (due (card_p c))\<rparr>
                          else stats1)
        in getStatsLoop now rest stats2)"

definition getStats :: "Date \<Rightarrow> 'e Position list \<Rightarrow> Stats" where
  "getStats now ps =
     getStatsLoop now ps
       \<lparr>unseen = 0, due_n = 0, practiced = 0, nextDue = None, total = length ps\<rparr>"

text \<open>
  What \<^verbatim>\<open>getCardForReview\<close> can hand back at run time: a position, \<^verbatim>\<open>null\<close>, or the
  \<^verbatim>\<open>undefined\<close> of an array read outside the bounds.
\<close>

datatype 'a Reviewed = Found 'a | Null | Undefined

record ReviewOptions =
  random_opt :: bool

definition defaultOptions :: ReviewOptions where
  "defaultOptions = \<lparr>random_opt = False\<rparr>"

text \<open>
  \<open>now\<close> is \<^verbatim>\<open>new Date()\<close> and \<open>rnd\<close> the number drawn by \<^verbatim>\<open>Math.random()\<close>. In random
  mode the index is \<^verbatim>\<open>Math.floor(rnd * positions.length)\<close> and the array is read there
  without a check.
\<close>

definition getCardForReview ::
  "Date \<Rightarrow> real \<Rightarrow> 'e Position list \<Rightarrow> ReviewOptions \<Rightarrow> 'e Position Reviewed" where
  "getCardForReview now rnd ps options =
     (if random_opt options then
        (let k = \<lfloor>rnd * real (length ps)\<rfloor>
         in if 0 \<le> k \<and> k < int (length ps) then Found (ps ! nat k) else Undefined)
      else
        (let filtered = filter (\<lambda>position. due (card_p position) \<le> now) ps
         in if length filtered > 0 then Found (filtered ! 0) else Null))"

text \<open>
  Modelled from the spec: the type of the engine's answer to \<^verbatim>\<open>f.repeat(card, now)\<close>
  (library ts-fsrs) is not among the sources. The specification's engine interface gives
  it one entry \<^verbatim>\<open>{ card, log }\<close> for each of the grades 1 (again), 2 (hard), 3 (good) and
  4 (easy). \<open>recordLogAt\<close> is the property read \<^verbatim>\<open>schedulingCards[grade]\<close>, \<open>None\<close> for
  \<^verbatim>\<open>undefined\<close>.
\<close>

record ('e, 'l) RecordLogItem =
  card_item :: "'e Card"
  log_item :: 'l

record ('e, 'l) RecordLog =
  again :: "('e, 'l) RecordLogItem"
  hard :: "('e, 'l) RecordLogItem"
  good :: "('e, 'l) RecordLogItem"
  easy :: "('e, 'l) RecordLogItem"

definition recordLogAt :: "('e, 'l) RecordLog \<Rightarrow> int \<Rightarrow> ('e, 'l) RecordLogItem option" where
  "recordLogAt schedulingCards grade =
     (if grade = 1 then Some (again schedulingCards)
      else if grade = 2 then Some (hard schedulingCards)
      else if grade = 3 then Some (good schedulingCards)
      else if grade = 4 then Some (easy schedulingCards)
      else None)"

datatype error = TypeError

text \<open>
  \<^verbatim>\<open>updateCardPerformance\<close>, with the store's setter as state passing: \<open>data\<close> is the deck
  the updater receives and the result, when there is one, the deck it returns; the
  parameter \<^verbatim>\<open>card\<close> is written \<open>card'\<close>, \<open>now\<close> is \<^verbatim>\<open>new Date()\<close>.
  Destructuring \<^verbatim>\<open>schedulingCards[grade]\<close> throws a TypeError when the entry is
  \<^verbatim>\<open>undefined\<close>. For an index outside the array, \<^verbatim>\<open>newPositions[i] = ...\<close> only touches
  the copy, and \<^verbatim>\<open>data.positions[i].fen\<close> then reads a property of \<^verbatim>\<open>undefined\<close>, which
  throws a TypeError before anything is returned to the store.
\<close>

definition updateCardPerformance ::
  "('e Card \<Rightarrow> Date \<Rightarrow> ('e, 'l) RecordLog) \<Rightarrow> Date \<Rightarrow> ('e, 'l) PracticeData \<Rightarrow> int \<Rightarrow> 'e Card
    \<Rightarrow> int \<Rightarrow> error + ('e, 'l) PracticeData" where
  "updateCardPerformance f_repeat now data i card' grade =
     (let schedulingCards = f_repeat card' now
      in case recordLogAt schedulingCards grade of
           None \<Rightarrow> Inl TypeError
         | Some entry \<Rightarrow>
             if 0 \<le> i \<and> i < int (length (positions data)) then
               let newPositions =
                     (positions data)[nat i := (positions data ! nat i)\<lparr>card_p := card_item entry\<rparr>];
                   newLogs =
                     logs data @
                       [\<lparr>review_log = log_item entry, fen_log = fen (positions data ! nat i)\<rparr>]
               in Inr \<lparr>positions = newPositions, logs = newLogs\<rparr>
             else Inl TypeError)"

section \<open>DeckStore: seeding and reset in PracticePanel\<close>

text \<open>The tree headers the panel reads, \<^verbatim>\<open>orientation\<close> and \<^verbatim>\<open>start\<close>; both may be missing.\<close>

record Headers =
  orientation_hdr :: "Color option"
  start_hdr :: "nat list option"

text \<open>
  The panel's call \<^verbatim>\<open>buildFromTree(root, headers.orientation || "white", headers.start || [])\<close>.
\<close>

definition buildFromHeaders ::
  "(Date \<Rightarrow> 'e Card) \<Rightarrow> (nat \<Rightarrow> Date) \<Rightarrow> TreeNode \<Rightarrow> Headers \<Rightarrow> 'e Position list" where
  "buildFromHeaders createEmptyCard clock tree headers =
     buildFromTree createEmptyCard clock tree
       (case orientation_hdr headers of None \<Rightarrow> White | Some c \<Rightarrow> c)
       (case start_hdr headers of None \<Rightarrow> [] | Some s \<Rightarrow> s)"

text \<open>The seeding effect of the panel: the deck after the effect has run on \<open>deck\<close>
  (\<open>tree\<close> is the store's \<^verbatim>\<open>root\<close>).\<close>

definition seedIfEmpty ::
  "(Date \<Rightarrow> 'e Card) \<Rightarrow> (nat \<Rightarrow> Date) \<Rightarrow> TreeNode \<Rightarrow> Headers \<Rightarrow> ('e, 'l) PracticeData
    \<Rightarrow> ('e, 'l) PracticeData" where
  "seedIfEmpty createEmptyCard clock tree headers deck =
     (let newDeck = buildFromHeaders createEmptyCard clock tree headers
      in if length newDeck > 0 \<and> length (positions deck) = 0
         then \<lparr>positions = newDeck, logs = []\<rparr>
         else deck)"

text \<open>The reset button's \<^verbatim>\<open>onConfirm\<close>.\<close>

definition resetDeck ::
  "(Date \<Rightarrow> 'e Card) \<Rightarrow> (nat \<Rightarrow> Date) \<Rightarrow> TreeNode \<Rightarrow> Headers \<Rightarrow> ('e, 'l) PracticeData" where
  "resetDeck createEmptyCard clock tree headers =
     \<lparr>positions = buildFromHeaders createEmptyCard clock tree headers, logs = []\<rparr>"

section \<open>Sample inputs\<close>

text \<open>
  Modelled from the spec: \<^verbatim>\<open>createEmptyCard\<close> belongs to the engine (library ts-fsrs) and is
  not among the sources. The specification describes its result as a freshly initialised
  scheduling state, zero repetitions and immediately due: \<open>due\<close> is the time of creation.
\<close>

definition freshCard :: "Date \<Rightarrow> unit Card" where
  "freshCard now = \<lparr>due = now, reps = 0, engine_fields = ()\<rparr>"

text \<open>
  A line of five moves below the root. The node at path [0,0,0,0] repeats the FEN of the
  node at path [0,0] (a transposition).
\<close>

definition sampleTree :: TreeNode where
  "sampleTree =
     TreeNode ''r'' None 0
       [TreeNode ''a'' (Some ''e4'') 1
         [TreeNode ''b'' (Some ''e5'') 2
           [TreeNode ''c'' (Some ''Nf3'') 3
             [TreeNode ''b'' (Some ''Nc6'') 4
               [TreeNode ''e'' (Some ''Bb5'') 5 []]]]]]"

text \<open>A deck of three cards (the third never reviewed) with one log entry, and headers with no field set.\<close>

definition sampleDeck :: "(unit, string) PracticeData" where
  "sampleDeck =
     \<lparr>positions = [\<lparr>fen = ''a'', answer = ''e5'', card_p = \<lparr>due = 50, reps = 1, engine_fields = ()\<rparr>\<rparr>,
                   \<lparr>fen = ''c'', answer = ''Nc6'', card_p = \<lparr>due = 30, reps = 2, engine_fields = ()\<rparr>\<rparr>,
                   \<lparr>fen = ''x'', answer = ''d4'', card_p = \<lparr>due = 900, reps = 0, engine_fields = ()\<rparr>\<rparr>],
      logs = [\<lparr>review_log = ''good'', fen_log = ''a''\<rparr>]\<rparr>"

definition noHeaders :: Headers where
  "noHeaders = \<lparr>orientation_hdr = None, start_hdr = None\<rparr>"

text \<open>An engine whose four outcomes differ in the due date and in the log.\<close>

definition sampleEngine :: "unit Card \<Rightarrow> Date \<Rightarrow> (unit, string) RecordLog" where
  "sampleEngine c now =
     \<lparr>again = \<lparr>card_item = \<lparr>due = now + 1, reps = reps c + 1, engine_fields = ()\<rparr>, log_item = ''again''\<rparr>,
      hard = \<lparr>card_item = \<lparr>due = now + 2, reps = reps c + 1, engine_fields = ()\<rparr>, log_item = ''hard''\<rparr>,
      good = \<lparr>card_item = \<lparr>due = now + 3, reps = reps c + 1, engine_fields = ()\<rparr>, log_item = ''good''\<rparr>,
      easy = \<lparr>card_item = \<lparr>due = now + 4, reps = reps c + 1, engine_fields = ()\<rparr>, log_item = ''easy''\<rparr>\<rparr>"

section \<open>Properties of the deck builder\<close>

text \<open>\<open>isPrefix\<close> is the prefix relation in the specification's words, and it is antisymmetric.\<close>

lemma isPrefix_spec:
  "isPrefix a b = (length a \<le> length b \<and> (\<forall>i<length a. a ! i = b ! i))"
  by (induction a b rule: isPrefix.induct) (auto simp: nth_Cons split: nat.splits)

lemma isPrefix_refl: "isPrefix p p"
  by (simp add: isPrefix_spec)

lemma isPrefix_Nil: "isPrefix b [] = (b = [])"
  by (cases b) simp_all

lemma isPrefix_antisym: "isPrefix a b \<Longrightarrow> isPrefix b a \<Longrightarrow> a = b"
  by (induction a b rule: isPrefix.induct) (simp_all add: isPrefix_Nil)

text \<open>Whether a FEN is already among the cards, as \<^verbatim>\<open>cards.find\<close> decides it.\<close>

lemma find_fen_None: "(find (\<lambda>c. fen c = f) cards = None) = (f \<notin> fen ` set cards)"
  by (auto simp: find_None_iff)

text \<open>The loop keeps the FENs of the accumulator distinct.\<close>

lemma buildLoop_distinct:
  "distinct (map fen cards) \<Longrightarrow> distinct (map fen (buildLoop mk clock color start items cards))"
proof (induction items arbitrary: cards)
  case Nil
  then show ?case by simp
next
  case (Cons item items)
  show ?case
  proof (cases "children (node item)")
    case Nil
    then show ?thesis using Cons.IH [of cards] Cons.prems by simp
  next
    case kids: (Cons child0 others)
    have pushed: "distinct (map fen (cards @ [\<lparr>fen = fen_node (node item),
            answer = the (san child0), card_p = mk (clock (length cards))\<rparr>]))"
      if "find (\<lambda>c. fen c = fen_node (node item)) cards = None"
      using that Cons.prems by (simp add: find_fen_None)
    show ?thesis
      using Cons.IH [of cards]
        Cons.IH [of "cards @ [\<lparr>fen = fen_node (node item), answer = the (san child0),
            card_p = mk (clock (length cards))\<rparr>]"] Cons.prems kids pushed
      by (simp del: distinct_append map_append)
  qed
qed

text \<open>The loop only appends to the accumulator.\<close>

lemma buildLoop_extends:
  "\<exists>added. buildLoop mk clock color start items cards = cards @ added"
proof (induction items arbitrary: cards)
  case Nil
  show ?case by simp
next
  case (Cons item items)
  have skip: "\<exists>added. buildLoop mk clock color start items cards = cards @ added"
    by (rule Cons.IH)
  obtain added' where "buildLoop mk clock color start items
      (cards @ [\<lparr>fen = fen_node (node item), answer = the (san (hd (children (node item)))),
                 card_p = mk (clock (length cards))\<rparr>]) =
      (cards @ [\<lparr>fen = fen_node (node item), answer = the (san (hd (children (node item)))),
                 card_p = mk (clock (length cards))\<rparr>]) @ added'"
    using Cons.IH by blast
  then have push: "\<exists>added. buildLoop mk clock color start items
      (cards @ [\<lparr>fen = fen_node (node item), answer = the (san (hd (children (node item)))),
                 card_p = mk (clock (length cards))\<rparr>]) = cards @ added"
    by simp
  show ?case
    using skip push by (cases "children (node item)") (simp_all del: append_assoc)
qed

text \<open>Every card the loop adds comes from an item whose path is not a prefix of \<open>start\<close>.\<close>

lemma buildLoop_origin:
  "c \<in> set (buildLoop mk clock color start items cards) \<Longrightarrow>
     c \<in> set cards \<or>
     (\<exists>item \<in> set items. \<not> isPrefix (position item) start \<and> children (node item) \<noteq> [] \<and>
        fen c = fen_node (node item))"
proof (induction items arbitrary: cards)
  case Nil
  then show ?case by simp
next
  case (Cons item items)
  show ?case
  proof (cases "children (node item)")
    case Nil
    then show ?thesis using Cons.IH [of cards] Cons.prems by auto
  next
    case kids: (Cons child0 others)
    show ?thesis
      using Cons.IH [of cards]
        Cons.IH [of "cards @ [\<lparr>fen = fen_node (node item), answer = the (san child0),
            card_p = mk (clock (length cards))\<rparr>]"] Cons.prems kids
      by (auto split: if_splits)
  qed
qed

text \<open>
  Two runs of the loop over the same items agree on the FENs and answers, whatever the
  engine's fresh cards and the clock readings are.
\<close>

lemma buildLoop_fresh:
  "buildLoop mk1 clock1 color start items cards1 = r1 \<Longrightarrow>
   buildLoop mk2 clock2 color start items cards2 = r2 \<Longrightarrow>
   map fen cards1 = map fen cards2 \<Longrightarrow> map answer cards1 = map answer cards2 \<Longrightarrow>
   map fen r1 = map fen r2 \<and> map answer r1 = map answer r2"
proof (induction items arbitrary: cards1 cards2)
  case Nil
  then show ?case by simp
next
  case (Cons item items)
  have same: "(find (\<lambda>c. fen c = f) cards1 = None) = (find (\<lambda>c. fen c = f) cards2 = None)" for f
    using Cons.prems(3) by (metis find_fen_None set_map)
  show ?case
  proof (cases "children (node item)")
    case Nil
    then show ?thesis using Cons.IH [of cards1 cards2] Cons.prems by simp
  next
    case kids: (Cons child0 others)
    show ?thesis
      using Cons.IH [of cards1 cards2]
        Cons.IH [of "cards1 @ [\<lparr>fen = fen_node (node item), answer = the (san child0),
            card_p = mk1 (clock1 (length cards1))\<rparr>]"
          "cards2 @ [\<lparr>fen = fen_node (node item), answer = the (san child0),
            card_p = mk2 (clock2 (length cards2))\<rparr>]"]
        Cons.prems kids same [of "fen_node (node item)"]
      by (simp split: if_splits)
  qed
qed

text \<open>The card with index \<open>k\<close> carries the fresh card made at the time \<open>clock k\<close>.\<close>

lemma buildLoop_step:
  "buildLoop mk clock color start (item # items) cards
     = buildLoop mk clock color start items cards
   \<or> (\<exists>f a. buildLoop mk clock color start (item # items) cards
         = buildLoop mk clock color start items
             (cards @ [\<lparr>fen = f, answer = a, card_p = mk (clock (length cards))\<rparr>]))"
  by (cases "children (node item)") auto

lemma buildLoop_cards:
  "\<forall>k<length cards. card_p (cards ! k) = mk (clock k) \<Longrightarrow>
   \<forall>k<length (buildLoop mk clock color start items cards).
     card_p (buildLoop mk clock color start items cards ! k) = mk (clock k)"
proof (induction items arbitrary: cards)
  case Nil
  then show ?case by simp
next
  case (Cons item items)
  have pushed: "\<forall>k<length (cards @ [\<lparr>fen = f, answer = a, card_p = mk (clock (length cards))\<rparr>]).
        card_p ((cards @ [\<lparr>fen = f, answer = a, card_p = mk (clock (length cards))\<rparr>]) ! k)
          = mk (clock k)" for f a
    using Cons.prems by (auto simp: nth_append less_Suc_eq)
  from buildLoop_step [of mk clock color start item items cards]
  show ?case
  proof
    assume "buildLoop mk clock color start (item # items) cards
        = buildLoop mk clock color start items cards"
    then show ?thesis using Cons.IH [OF Cons.prems] by simp
  next
    assume "\<exists>f a. buildLoop mk clock color start (item # items) cards
         = buildLoop mk clock color start items
             (cards @ [\<lparr>fen = f, answer = a, card_p = mk (clock (length cards))\<rparr>])"
    then obtain f a where "buildLoop mk clock color start (item # items) cards
         = buildLoop mk clock color start items
             (cards @ [\<lparr>fen = f, answer = a, card_p = mk (clock (length cards))\<rparr>])"
      by blast
    then show ?thesis using Cons.IH [OF pushed [of f a]] by simp
  qed
qed

text \<open>Engines and clocks that give the same fresh cards give the same result.\<close>

lemma buildLoop_same_fresh:
  "\<forall>k. mk1 (clock1 k) = mk2 (clock2 k) \<Longrightarrow>
   buildLoop mk1 clock1 color start items cards = buildLoop mk2 clock2 color start items cards"
proof (induction items arbitrary: cards)
  case Nil
  show ?case by simp
next
  case (Cons item items)
  then show ?case by (cases "children (node item)") simp_all
qed

text \<open>
  C7 (FEN uniqueness). For every tree, side and mastered prefix, no two cards returned by
  \<^verbatim>\<open>buildFromTree\<close> have the same \<open>fen\<close>. An item whose FEN is already among the cards is
  skipped, and the loop only appends to the cards it has, so the node met first for a FEN
  is the one that stays.
\<close>

theorem build_fen_unique:
  "distinct (map fen (buildFromTree createEmptyCard clock tree color start))
   \<and> (find (\<lambda>c. fen c = fen_node (node item)) cards \<noteq> None \<longrightarrow>
        buildLoop createEmptyCard clock color start (item # items) cards =
        buildLoop createEmptyCard clock color start items cards)
   \<and> (\<exists>added. buildLoop createEmptyCard clock color start items cards = cards @ added)"
proof -
  have "distinct (map fen (buildLoop createEmptyCard clock color start (treeIterator tree) []))"
    by (rule buildLoop_distinct) simp
  then have unique: "distinct (map fen (buildFromTree createEmptyCard clock tree color start))"
    by (simp add: buildFromTree_def)
  have skipped: "buildLoop createEmptyCard clock color start (item # items) cards =
      buildLoop createEmptyCard clock color start items cards"
    if "find (\<lambda>c. fen c = fen_node (node item)) cards \<noteq> None"
    using that by (cases "children (node item)") simp_all
  from unique skipped buildLoop_extends show ?thesis by blast
qed

theorem build_fen_unique_witness:
  "distinct (map fen (buildFromTree freshCard (\<lambda>k. 7) sampleTree White []))
   \<and> buildFromTree freshCard (\<lambda>k. 7) sampleTree White []
       = [\<lparr>fen = ''b'', answer = ''Nf3'', card_p = freshCard 7\<rparr>]
   \<and> find (\<lambda>c. fen c = ''b'') [\<lparr>fen = ''b'', answer = ''Nf3'', card_p = freshCard 7\<rparr>] \<noteq> None
   \<and> buildLoop freshCard (\<lambda>k. 7) White []
        [\<lparr>position = [0, 0, 0, 0],
          node = TreeNode ''b'' (Some ''Nc6'') 4 [TreeNode ''e'' (Some ''Bb5'') 5 []]\<rparr>]
        [\<lparr>fen = ''b'', answer = ''Nf3'', card_p = freshCard 7\<rparr>]
       = [\<lparr>fen = ''b'', answer = ''Nf3'', card_p = freshCard 7\<rparr>]"
  using build_fen_unique [where createEmptyCard = freshCard and clock = "\<lambda>k. 7" and tree = sampleTree
      and color = White and start = "[]" and items = "[]"
      and item = "\<lparr>position = [0, 0, 0, 0],
        node = TreeNode ''b'' (Some ''Nc6'') 4 [TreeNode ''e'' (Some ''Bb5'') 5 []]\<rparr>"
      and cards = "[\<lparr>fen = ''b'', answer = ''Nf3'', card_p = freshCard 7\<rparr>]"]
  by (simp add: buildFromTree_def treeIterator_def sampleTree_def falsy_def)

text \<open>
  C2 (prefix exclusion and its direction). An item whose path is a prefix of the mastered
  path \<open>start\<close> is skipped by the loop, and every card of the result comes from a node of
  the traversal whose path is not a prefix of \<open>start\<close>. An item whose path strictly extends
  \<open>start\<close> is not a prefix of it: the loop treats it by the other conditions alone (a first
  child with a move, a new FEN, the side's parity).
\<close>

theorem prefix_exclusion:
  "(isPrefix (position item) start \<longrightarrow>
      buildLoop createEmptyCard clock color start (item # items) cards =
      buildLoop createEmptyCard clock color start items cards)
   \<and> (\<forall>c \<in> set (buildFromTree createEmptyCard clock tree color start).
        \<exists>it \<in> set (treeIterator tree).
          \<not> isPrefix (position it) start \<and> fen c = fen_node (node it))
   \<and> (isPrefix start (position item) \<and> position item \<noteq> start \<longrightarrow>
        \<not> isPrefix (position item) start \<and>
        buildLoop createEmptyCard clock color start (item # items) cards =
          (case children (node item) of
             [] \<Rightarrow> buildLoop createEmptyCard clock color start items cards
           | child0 # _ \<Rightarrow>
               if falsy (san child0) \<or> find (\<lambda>c. fen c = fen_node (node item)) cards \<noteq> None
               then buildLoop createEmptyCard clock color start items cards
               else if (color = White \<and> halfMoves (node item) mod 2 = 0)
                       \<or> (color = Black \<and> halfMoves (node item) mod 2 = 1)
               then buildLoop createEmptyCard clock color start items
                      (cards @ [\<lparr>fen = fen_node (node item), answer = the (san child0),
                                 card_p = createEmptyCard (clock (length cards))\<rparr>])
               else buildLoop createEmptyCard clock color start items cards))"
proof (intro conjI impI ballI)
  assume "isPrefix (position item) start"
  then show "buildLoop createEmptyCard clock color start (item # items) cards =
      buildLoop createEmptyCard clock color start items cards"
    by (cases "children (node item)") simp_all
next
  fix c
  assume "c \<in> set (buildFromTree createEmptyCard clock tree color start)"
  then have "c \<in> set (buildLoop createEmptyCard clock color start (treeIterator tree) [])"
    by (simp add: buildFromTree_def)
  from buildLoop_origin [OF this]
  show "\<exists>it \<in> set (treeIterator tree). \<not> isPrefix (position it) start \<and> fen c = fen_node (node it)"
    by auto
next
  assume deeper: "isPrefix start (position item) \<and> position item \<noteq> start"
  then show "\<not> isPrefix (position item) start"
    using isPrefix_antisym by blast
  then show "buildLoop createEmptyCard clock color start (item # items) cards =
          (case children (node item) of
             [] \<Rightarrow> buildLoop createEmptyCard clock color start items cards
           | child0 # _ \<Rightarrow>
               if falsy (san child0) \<or> find (\<lambda>c. fen c = fen_node (node item)) cards \<noteq> None
               then buildLoop createEmptyCard clock color start items cards
               else if (color = White \<and> halfMoves (node item) mod 2 = 0)
                       \<or> (color = Black \<and> halfMoves (node item) mod 2 = 1)
               then buildLoop createEmptyCard clock color start items
                      (cards @ [\<lparr>fen = fen_node (node item), answer = the (san child0),
                                 card_p = createEmptyCard (clock (length cards))\<rparr>])
               else buildLoop createEmptyCard clock color start items cards)"
    by (cases "children (node item)") simp_all
qed

theorem prefix_exclusion_witness:
  "isPrefix [0] [0]
   \<and> isPrefix [0] [0, 0, 0] \<and> [0, 0, 0] \<noteq> [0::nat] \<and> \<not> isPrefix [0, 0, 0] [0]
   \<and> buildFromTree freshCard (\<lambda>k. 7) sampleTree Black []
       = [\<lparr>fen = ''a'', answer = ''e5'', card_p = freshCard 7\<rparr>,
          \<lparr>fen = ''c'', answer = ''Nc6'', card_p = freshCard 7\<rparr>]
   \<and> buildFromTree freshCard (\<lambda>k. 7) sampleTree Black [0]
       = [\<lparr>fen = ''c'', answer = ''Nc6'', card_p = freshCard 7\<rparr>]
   \<and> buildLoop freshCard (\<lambda>k. 7) Black [0]
        [\<lparr>position = [0], node = hd (children sampleTree)\<rparr>] []
       = buildLoop freshCard (\<lambda>k. 7) Black [0] [] []
   \<and> buildLoop freshCard (\<lambda>k. 7) Black [0]
        [\<lparr>position = [0, 0, 0], node = hd (children (hd (children (hd (children sampleTree)))))\<rparr>] []
       = [\<lparr>fen = ''c'', answer = ''Nc6'', card_p = freshCard 7\<rparr>]"
  using prefix_exclusion [where item = "\<lparr>position = [0], node = hd (children sampleTree)\<rparr>"
      and start = "[0]" and createEmptyCard = freshCard and clock = "\<lambda>k. 7" and color = Black
      and items = "[]" and cards = "[]" and tree = sampleTree]
    prefix_exclusion [where item =
      "\<lparr>position = [0, 0, 0], node = hd (children (hd (children (hd (children sampleTree)))))\<rparr>"
      and start = "[0]" and createEmptyCard = freshCard and clock = "\<lambda>k. 7" and color = Black
      and items = "[]" and cards = "[]" and tree = sampleTree]
  by (simp add: buildFromTree_def treeIterator_def sampleTree_def falsy_def)

text \<open>
  C9 (determinism of the build), as amended. Two calls with the same tree, side and
  mastered prefix return cards with the same FENs and the same answers in the same order,
  and the card with index \<open>k\<close> carries the fresh card the engine made when it was created;
  the two results are equal when the engine's fresh cards are the same in both calls.
  The scheduling state need not be identical: an engine that stamps the fresh card with
  the time of creation gives two calls at different times different \<open>due\<close> dates.
\<close>

theorem build_determined_by_fresh_card:
  "map fen (buildFromTree mk1 clock1 tree color start)
     = map fen (buildFromTree mk2 clock2 tree color start)
   \<and> map answer (buildFromTree mk1 clock1 tree color start)
       = map answer (buildFromTree mk2 clock2 tree color start)
   \<and> (\<forall>k<length (buildFromTree mk1 clock1 tree color start).
        card_p (buildFromTree mk1 clock1 tree color start ! k) = mk1 (clock1 k))
   \<and> ((\<forall>k. mk1 (clock1 k) = mk2 (clock2 k)) \<longrightarrow>
        buildFromTree mk1 clock1 tree color start = buildFromTree mk2 clock2 tree color start)"
proof -
  have "map fen (buildFromTree mk1 clock1 tree color start)
        = map fen (buildFromTree mk2 clock2 tree color start)
      \<and> map answer (buildFromTree mk1 clock1 tree color start)
          = map answer (buildFromTree mk2 clock2 tree color start)"
    unfolding buildFromTree_def by (rule buildLoop_fresh [OF refl refl]) simp_all
  moreover have "\<forall>k<length (buildFromTree mk1 clock1 tree color start).
        card_p (buildFromTree mk1 clock1 tree color start ! k) = mk1 (clock1 k)"
    unfolding buildFromTree_def using buildLoop_cards [of "[]" mk1 clock1] by simp
  moreover have "buildFromTree mk1 clock1 tree color start = buildFromTree mk2 clock2 tree color start"
    if "\<forall>k. mk1 (clock1 k) = mk2 (clock2 k)"
    unfolding buildFromTree_def using that by (rule buildLoop_same_fresh)
  ultimately show ?thesis by blast
qed

theorem build_determined_by_fresh_card_witness:
  "map fen (buildFromTree freshCard (\<lambda>k. 1000) sampleTree Black []) = [''a'', ''c'']
   \<and> map fen (buildFromTree freshCard (\<lambda>k. 2000 + int k) sampleTree Black []) = [''a'', ''c'']
   \<and> map answer (buildFromTree freshCard (\<lambda>k. 1000) sampleTree Black [])
       = map answer (buildFromTree freshCard (\<lambda>k. 2000 + int k) sampleTree Black [])
   \<and> map card_p (buildFromTree freshCard (\<lambda>k. 2000 + int k) sampleTree Black [])
       = [freshCard 2000, freshCard 2001]
   \<and> buildFromTree (\<lambda>t. freshCard 0) (\<lambda>k. 1000) sampleTree Black []
       = buildFromTree (\<lambda>t. freshCard 0) (\<lambda>k. 2000 + int k) sampleTree Black []"
proof -
  have same: "\<forall>k. (\<lambda>t. freshCard 0) ((\<lambda>k. 1000) k) = (\<lambda>t. freshCard 0) ((\<lambda>k. 2000 + int k) k)"
    by simp
  have run: "buildFromTree freshCard (\<lambda>k. 2000 + int k) sampleTree Black []
      = [\<lparr>fen = ''a'', answer = ''e5'', card_p = freshCard 2000\<rparr>,
         \<lparr>fen = ''c'', answer = ''Nc6'', card_p = freshCard 2001\<rparr>]"
    by (simp add: buildFromTree_def treeIterator_def sampleTree_def falsy_def)
  from same run
    build_determined_by_fresh_card [where ?mk1.0 = freshCard and ?clock1.0 = "\<lambda>k. 1000"
      and tree = sampleTree and color = Black and start = "[]" and ?mk2.0 = freshCard
      and ?clock2.0 = "\<lambda>k. 2000 + int k"]
    build_determined_by_fresh_card [where ?mk1.0 = "\<lambda>t. freshCard 0" and ?clock1.0 = "\<lambda>k. 1000"
      and tree = sampleTree and color = Black and start = "[]"
      and ?mk2.0 = "\<lambda>t. freshCard 0" and ?clock2.0 = "\<lambda>k. 2000 + int k"]
  show ?thesis by simp
qed

text \<open>The claim as stated fails: the same tree, side and prefix, built at two times.\<close>

theorem build_deterministic_counterexample:
  "buildFromTree freshCard (\<lambda>k. 1000) sampleTree White []
     \<noteq> buildFromTree freshCard (\<lambda>k. 2000) sampleTree White []"
  by (simp add: buildFromTree_def treeIterator_def sampleTree_def falsy_def freshCard_def)

section \<open>Properties of seeding\<close>

text \<open>
  Where the seeding effect writes the deck, it writes what the reset button writes: the
  build result and an empty log list.
\<close>

lemma seed_empty_is_reset:
  "positions deck = [] \<Longrightarrow> buildFromHeaders mk clock tree headers \<noteq> [] \<Longrightarrow>
   seedIfEmpty mk clock tree headers deck = resetDeck mk clock tree headers"
  by (simp add: seedIfEmpty_def resetDeck_def Let_def)

text \<open>
  C1 (seeding an empty deck), as amended. For a deck with no positions and a build that
  yields at least one card, the seeding effect stores the build result as positions and
  the empty list as logs. The logs are what they were before exactly when they were
  empty before.
\<close>

theorem seed_empty_deck:
  assumes "positions deck = []"
    and "buildFromHeaders createEmptyCard clock tree headers \<noteq> []"
  shows "seedIfEmpty createEmptyCard clock tree headers deck
           = \<lparr>positions = buildFromHeaders createEmptyCard clock tree headers, logs = []\<rparr>
         \<and> (logs (seedIfEmpty createEmptyCard clock tree headers deck) = logs deck) = (logs deck = [])"
  using assms by (auto simp: seedIfEmpty_def Let_def)

theorem seed_empty_deck_witness:
  "positions \<lparr>positions = [], logs = ([] :: string LogEntry list)\<rparr> = ([] :: unit Position list)
   \<and> buildFromHeaders freshCard (\<lambda>k. 7) sampleTree noHeaders \<noteq> []
   \<and> seedIfEmpty freshCard (\<lambda>k. 7) sampleTree noHeaders \<lparr>positions = [], logs = ([] :: string LogEntry list)\<rparr>
       = \<lparr>positions = [\<lparr>fen = ''b'', answer = ''Nf3'', card_p = freshCard 7\<rparr>], logs = []\<rparr>"
  using seed_empty_deck [where deck = "\<lparr>positions = [], logs = ([] :: string LogEntry list)\<rparr>"
      and createEmptyCard = freshCard and clock = "\<lambda>k. 7" and tree = sampleTree and headers = noHeaders]
  by (simp add: buildFromHeaders_def noHeaders_def buildFromTree_def treeIterator_def
      sampleTree_def falsy_def)

text \<open>The claim as stated fails on a deck with no positions and one log entry: the entry is dropped.\<close>

theorem seed_keeps_logs_counterexample:
  "positions \<lparr>positions = ([] :: unit Position list), logs = [\<lparr>review_log = ''good'', fen_log = ''b''\<rparr>]\<rparr> = []
   \<and> buildFromHeaders freshCard (\<lambda>k. 7) sampleTree noHeaders \<noteq> []
   \<and> logs (seedIfEmpty freshCard (\<lambda>k. 7) sampleTree noHeaders
         \<lparr>positions = [], logs = [\<lparr>review_log = ''good'', fen_log = ''b''\<rparr>]\<rparr>)
       \<noteq> logs \<lparr>positions = ([] :: unit Position list), logs = [\<lparr>review_log = ''good'', fen_log = ''b''\<rparr>]\<rparr>"
  by (simp add: seedIfEmpty_def buildFromHeaders_def noHeaders_def buildFromTree_def
      treeIterator_def sampleTree_def falsy_def)

text \<open>
  C5 (idempotent seeding). On a deck with at least one position the seeding effect
  changes nothing, neither positions nor logs, whatever the tree, side and prefix; so
  does a second run after it.
\<close>

theorem seed_nonempty_noop:
  assumes "positions deck \<noteq> []"
  shows "seedIfEmpty createEmptyCard clock tree headers deck = deck
         \<and> seedIfEmpty createEmptyCard' clock' tree' headers'
             (seedIfEmpty createEmptyCard clock tree headers deck) = deck"
  using assms by (simp add: seedIfEmpty_def Let_def)

theorem seed_nonempty_noop_witness:
  "positions sampleDeck \<noteq> []
   \<and> seedIfEmpty freshCard (\<lambda>k. 7) sampleTree noHeaders sampleDeck = sampleDeck
   \<and> seedIfEmpty freshCard (\<lambda>k. 9) sampleTree noHeaders
        (seedIfEmpty freshCard (\<lambda>k. 7) sampleTree noHeaders sampleDeck) = sampleDeck
   \<and> buildFromHeaders freshCard (\<lambda>k. 7) sampleTree noHeaders \<noteq> positions sampleDeck"
proof -
  have nonempty: "positions sampleDeck \<noteq> []"
    by (simp add: sampleDeck_def)
  have other: "buildFromHeaders freshCard (\<lambda>k. 7) sampleTree noHeaders \<noteq> positions sampleDeck"
    by (simp add: sampleDeck_def buildFromHeaders_def noHeaders_def buildFromTree_def
        treeIterator_def sampleTree_def falsy_def)
  from nonempty other seed_nonempty_noop [OF nonempty] show ?thesis
    by simp
qed

section \<open>Properties of the review scheduler\<close>

text \<open>The first element of the filtered list is the first element that satisfies the test.\<close>

lemma filter_first_find:
  "(let filtered = filter P xs in if length filtered > 0 then Found (filtered ! 0) else Null)
     = (case find P xs of None \<Rightarrow> Null | Some x \<Rightarrow> Found x)"
  by (induction xs) (auto simp: Let_def)

lemma find_first_index:
  "find P xs = Some x \<Longrightarrow> \<exists>i<length xs. xs ! i = x \<and> P x \<and> (\<forall>j<i. \<not> P (xs ! j))"
  by (auto simp: find_Some_iff)

lemma getCardForReview_default:
  "getCardForReview now rnd ps defaultOptions
     = (case find (\<lambda>p. due (card_p p) \<le> now) ps of None \<Rightarrow> Null | Some p \<Rightarrow> Found p)"
  unfolding getCardForReview_def defaultOptions_def
  using filter_first_find [of "\<lambda>p. due (card_p p) \<le> now" ps] by simp

text \<open>
  C3 (deterministic selection). With the default options \<^verbatim>\<open>getCardForReview\<close> returns the
  first position in list order whose \<open>due\<close> is at most \<open>now\<close>, and \<^verbatim>\<open>null\<close> exactly when no
  position is due. A due position at the head of the list is returned whatever comes
  after it, also a position due earlier. The function builds a new list with \<^verbatim>\<open>filter\<close>
  and writes nothing to its argument, so the model has no state to return.
\<close>

theorem select_first_due:
  "getCardForReview now rnd ps defaultOptions
     = (case find (\<lambda>p. due (card_p p) \<le> now) ps of None \<Rightarrow> Null | Some p \<Rightarrow> Found p)
   \<and> ((getCardForReview now rnd ps defaultOptions = Null) = (\<forall>p \<in> set ps. \<not> due (card_p p) \<le> now))
   \<and> getCardForReview now rnd ps defaultOptions \<noteq> Undefined
   \<and> (getCardForReview now rnd ps defaultOptions = Found c \<longrightarrow>
        (\<exists>i<length ps. ps ! i = c \<and> due (card_p c) \<le> now
           \<and> (\<forall>j<i. \<not> due (card_p (ps ! j)) \<le> now)))
   \<and> (due (card_p a) \<le> now \<longrightarrow> getCardForReview now rnd (a # rest) defaultOptions = Found a)"
proof -
  note sel = getCardForReview_default
  have none: "(getCardForReview now rnd ps defaultOptions = Null)
      = (\<forall>p \<in> set ps. \<not> due (card_p p) \<le> now)"
  proof -
    have "(getCardForReview now rnd ps defaultOptions = Null)
        = (find (\<lambda>p. due (card_p p) \<le> now) ps = None)"
      by (simp add: sel split: option.splits)
    then show ?thesis by (auto simp: find_None_iff)
  qed
  have defined: "getCardForReview now rnd ps defaultOptions \<noteq> Undefined"
    by (simp add: sel split: option.splits)
  have first: "\<exists>i<length ps. ps ! i = c \<and> due (card_p c) \<le> now
           \<and> (\<forall>j<i. \<not> due (card_p (ps ! j)) \<le> now)"
    if "getCardForReview now rnd ps defaultOptions = Found c"
  proof -
    from that have "find (\<lambda>p. due (card_p p) \<le> now) ps = Some c"
      by (simp add: sel split: option.splits)
    from find_first_index [OF this] show ?thesis .
  qed
  have head: "getCardForReview now rnd (a # rest) defaultOptions = Found a"
    if "due (card_p a) \<le> now"
    using that by (simp add: sel)
  from sel none defined first head show ?thesis by blast
qed

theorem select_first_due_witness:
  "getCardForReview 100 0 (positions sampleDeck) defaultOptions = Found (positions sampleDeck ! 0)
   \<and> due (card_p (positions sampleDeck ! 1)) < due (card_p (positions sampleDeck ! 0))
   \<and> due (card_p (positions sampleDeck ! 0)) \<le> 100
   \<and> getCardForReview 10 0 (positions sampleDeck) defaultOptions = Null
   \<and> getCardForReview 40 0 (positions sampleDeck) defaultOptions = Found (positions sampleDeck ! 1)"
  using select_first_due [where now = 100 and rnd = 0 and ps = "positions sampleDeck"
      and a = "positions sampleDeck ! 0" and rest = "tl (positions sampleDeck)"
      and c = "positions sampleDeck ! 0"]
    select_first_due [where now = 10 and rnd = 0 and ps = "positions sampleDeck"
      and a = "positions sampleDeck ! 0" and rest = "tl (positions sampleDeck)"
      and c = "positions sampleDeck ! 0"]
    select_first_due [where now = 40 and rnd = 0 and ps = "positions sampleDeck"
      and a = "positions sampleDeck ! 0" and rest = "tl (positions sampleDeck)"
      and c = "positions sampleDeck ! 1"]
  by (simp add: sampleDeck_def)

text \<open>
  C10 (random mode on an empty list). With \<^verbatim>\<open>random: true\<close> and no positions the index is
  \<^verbatim>\<open>Math.floor(rnd * 0) = 0\<close> and the read of the empty array gives \<^verbatim>\<open>undefined\<close>, where the
  default mode gives \<^verbatim>\<open>null\<close>.
\<close>

theorem random_empty_undefined:
  "getCardForReview now rnd [] \<lparr>random_opt = True\<rparr> = Undefined
   \<and> getCardForReview now rnd [] \<lparr>random_opt = False\<rparr> = Null
   \<and> getCardForReview now rnd [] \<lparr>random_opt = True\<rparr> \<noteq> getCardForReview now rnd [] \<lparr>random_opt = False\<rparr>"
  by (simp add: getCardForReview_def)

theorem random_empty_undefined_witness:
  "getCardForReview 100 (1 / 2) ([] :: unit Position list) \<lparr>random_opt = True\<rparr> = Undefined
   \<and> getCardForReview 100 (1 / 2) ([] :: unit Position list) \<lparr>random_opt = False\<rparr> = Null"
proof -
  have "getCardForReview 100 (1 / 2) ([] :: unit Position list) \<lparr>random_opt = True\<rparr> = Undefined
      \<and> getCardForReview 100 (1 / 2) ([] :: unit Position list) \<lparr>random_opt = False\<rparr> = Null
      \<and> getCardForReview 100 (1 / 2) ([] :: unit Position list) \<lparr>random_opt = True\<rparr>
          \<noteq> getCardForReview 100 (1 / 2) ([] :: unit Position list) \<lparr>random_opt = False\<rparr>"
    by (rule random_empty_undefined)
  then show ?thesis by blast
qed

text \<open>What the loop of \<^verbatim>\<open>getStats\<close> adds to each counter.\<close>

lemma getStatsLoop_counts:
  "unseen (getStatsLoop now ps s) = unseen s + length (filter (\<lambda>p. reps (card_p p) = 0) ps)
   \<and> due_n (getStatsLoop now ps s)
       = due_n s + length (filter (\<lambda>p. reps (card_p p) > 0 \<and> due (card_p p) \<le> now) ps)
   \<and> practiced (getStatsLoop now ps s)
       = practiced s + length (filter (\<lambda>p. reps (card_p p) > 0 \<and> \<not> due (card_p p) \<le> now) ps)
   \<and> total (getStatsLoop now ps s) = total s"
  by (induction ps arbitrary: s) (simp_all add: Let_def split: option.splits)

lemma length_three_filters:
  "length (filter (\<lambda>p. reps (card_p p) = 0) ps)
   + length (filter (\<lambda>p. reps (card_p p) > 0 \<and> due (card_p p) \<le> now) ps)
   + length (filter (\<lambda>p. reps (card_p p) > 0 \<and> \<not> due (card_p p) \<le> now) ps) = length ps"
  by (induction ps) auto

text \<open>
  C8 (stats totals). The three counts add up to \<open>total\<close>, which is the number of
  positions; a position counts as unseen when \<open>reps = 0\<close>, as due when \<open>reps > 0\<close> and its
  \<open>due\<close> is at most the one \<open>now\<close> of the computation, and as practiced otherwise. For no
  positions all counts are 0 and there is no \<open>nextDue\<close>.
\<close>

theorem stats_total:
  "unseen (getStats now ps) + due_n (getStats now ps) + practiced (getStats now ps)
     = total (getStats now ps)
   \<and> total (getStats now ps) = length ps
   \<and> unseen (getStats now ps) = length (filter (\<lambda>p. reps (card_p p) = 0) ps)
   \<and> due_n (getStats now ps)
       = length (filter (\<lambda>p. reps (card_p p) > 0 \<and> due (card_p p) \<le> now) ps)
   \<and> practiced (getStats now ps)
       = length (filter (\<lambda>p. \<not> reps (card_p p) = 0 \<and> \<not> (reps (card_p p) > 0 \<and> due (card_p p) \<le> now)) ps)
   \<and> getStats now []
       = \<lparr>unseen = 0, due_n = 0, practiced = 0, nextDue = None, total = 0\<rparr>"
proof -
  have same: "(\<lambda>p::'a Position. \<not> reps (card_p p) = 0 \<and> \<not> (reps (card_p p) > 0 \<and> due (card_p p) \<le> now))
      = (\<lambda>p. reps (card_p p) > 0 \<and> \<not> due (card_p p) \<le> now)"
    by auto
  show ?thesis
    unfolding same
    using getStatsLoop_counts [of now ps
        "\<lparr>unseen = 0, due_n = 0, practiced = 0, nextDue = None, total = length ps\<rparr>"]
      length_three_filters [of ps now]
    by (simp add: getStats_def)
qed

theorem stats_total_witness:
  "getStats 40 (positions sampleDeck)
     = \<lparr>unseen = 1, due_n = 1, practiced = 1, nextDue = Some 30, total = 3\<rparr>
   \<and> unseen (getStats 40 (positions sampleDeck)) + due_n (getStats 40 (positions sampleDeck))
       + practiced (getStats 40 (positions sampleDeck)) = total (getStats 40 (positions sampleDeck))"
  using stats_total [of 40 "positions sampleDeck"]
  by (simp add: sampleDeck_def getStats_def)

text \<open>
  C4 (atomic grading). For an index inside the positions and a grade from 1 to 4, the
  update returns one new deck: its logs are the old logs with one entry appended, the
  engine's log for that grade tagged with the FEN of position \<open>i\<close>; position \<open>i\<close> has its
  card replaced by the engine's card for that grade; every other position is the old
  one. Both changes arrive in the one returned deck.
\<close>

theorem atomic_grading:
  assumes "0 \<le> i" and "i < int (length (positions data))" and "grade \<in> {1, 2, 3, 4}"
  shows "\<exists>entry data'.
      recordLogAt (f_repeat card' now) grade = Some entry
    \<and> updateCardPerformance f_repeat now data i card' grade = Inr data'
    \<and> logs data' = logs data @ [\<lparr>review_log = log_item entry, fen_log = fen (positions data ! nat i)\<rparr>]
    \<and> length (positions data') = length (positions data)
    \<and> positions data' ! nat i = (positions data ! nat i)\<lparr>card_p := card_item entry\<rparr>
    \<and> (\<forall>j<length (positions data). j \<noteq> nat i \<longrightarrow> positions data' ! j = positions data ! j)"
proof -
  from assms(3) obtain entry where entry: "recordLogAt (f_repeat card' now) grade = Some entry"
    by (auto simp: recordLogAt_def)
  define data' where "data' =
    \<lparr>positions = (positions data)[nat i := (positions data ! nat i)\<lparr>card_p := card_item entry\<rparr>],
     logs = logs data @ [\<lparr>review_log = log_item entry, fen_log = fen (positions data ! nat i)\<rparr>]\<rparr>"
  have run: "updateCardPerformance f_repeat now data i card' grade = Inr data'"
    using assms(1,2) entry by (simp add: updateCardPerformance_def data'_def Let_def)
  have at_i: "positions data' ! nat i = (positions data ! nat i)\<lparr>card_p := card_item entry\<rparr>"
    using assms(1,2) by (simp add: data'_def)
  have others: "\<forall>j<length (positions data). j \<noteq> nat i \<longrightarrow> positions data' ! j = positions data ! j"
    by (simp add: data'_def)
  have "logs data' = logs data @ [\<lparr>review_log = log_item entry, fen_log = fen (positions data ! nat i)\<rparr>]"
    and "length (positions data') = length (positions data)"
    by (simp_all add: data'_def)
  with entry run at_i others show ?thesis by blast
qed

theorem atomic_grading_witness:
  "(0::int) \<le> 1 \<and> 1 < int (length (positions sampleDeck)) \<and> (4::int) \<in> {1, 2, 3, 4}
   \<and> updateCardPerformance sampleEngine 100 sampleDeck 1 (card_p (positions sampleDeck ! 1)) 4
       = Inr \<lparr>positions =
                [\<lparr>fen = ''a'', answer = ''e5'', card_p = \<lparr>due = 50, reps = 1, engine_fields = ()\<rparr>\<rparr>,
                 \<lparr>fen = ''c'', answer = ''Nc6'', card_p = \<lparr>due = 104, reps = 3, engine_fields = ()\<rparr>\<rparr>,
                 \<lparr>fen = ''x'', answer = ''d4'', card_p = \<lparr>due = 900, reps = 0, engine_fields = ()\<rparr>\<rparr>],
              logs = [\<lparr>review_log = ''good'', fen_log = ''a''\<rparr>,
                      \<lparr>review_log = ''easy'', fen_log = ''c''\<rparr>]\<rparr>"
proof -
  have valid: "(0::int) \<le> 1" "1 < int (length (positions sampleDeck))" "(4::int) \<in> {1, 2, 3, 4}"
    by (simp_all add: sampleDeck_def)
  from atomic_grading [OF valid, of sampleEngine "card_p (positions sampleDeck ! 1)" 100]
  obtain entry data' where
    "recordLogAt (sampleEngine (card_p (positions sampleDeck ! 1)) 100) 4 = Some entry"
    and run: "updateCardPerformance sampleEngine 100 sampleDeck 1 (card_p (positions sampleDeck ! 1)) 4 = Inr data'"
    by blast
  have "updateCardPerformance sampleEngine 100 sampleDeck 1 (card_p (positions sampleDeck ! 1)) 4
       = Inr \<lparr>positions =
                [\<lparr>fen = ''a'', answer = ''e5'', card_p = \<lparr>due = 50, reps = 1, engine_fields = ()\<rparr>\<rparr>,
                 \<lparr>fen = ''c'', answer = ''Nc6'', card_p = \<lparr>due = 104, reps = 3, engine_fields = ()\<rparr>\<rparr>,
                 \<lparr>fen = ''x'', answer = ''d4'', card_p = \<lparr>due = 900, reps = 0, engine_fields = ()\<rparr>\<rparr>],
              logs = [\<lparr>review_log = ''good'', fen_log = ''a''\<rparr>,
                      \<lparr>review_log = ''easy'', fen_log = ''c''\<rparr>]\<rparr>"
    using run
    by (simp add: updateCardPerformance_def recordLogAt_def sampleEngine_def sampleDeck_def)
  with valid show ?thesis by simp
qed

text \<open>
  C6 (fail fast on invalid arguments). For an index outside the positions, or a grade
  other than 1, 2, 3 and 4, the update throws a TypeError and returns no deck to the
  store.
\<close>

theorem grading_fails_fast:
  assumes "i < 0 \<or> int (length (positions data)) \<le> i \<or> grade \<notin> {1, 2, 3, 4}"
  shows "updateCardPerformance f_repeat now data i card' grade = Inl TypeError"
  using assms by (auto simp: updateCardPerformance_def recordLogAt_def Let_def)

theorem grading_fails_fast_witness:
  "int (length (positions sampleDeck)) \<le> 3
   \<and> updateCardPerformance sampleEngine 100 sampleDeck 3 (card_p (positions sampleDeck ! 1)) 4
       = Inl TypeError
   \<and> updateCardPerformance sampleEngine 100 sampleDeck (- 1) (card_p (positions sampleDeck ! 1)) 4
       = Inl TypeError
   \<and> (5::int) \<notin> {1, 2, 3, 4}
   \<and> updateCardPerformance sampleEngine 100 sampleDeck 1 (card_p (positions sampleDeck ! 1)) 5
       = Inl TypeError
   \<and> updateCardPerformance sampleEngine 100 sampleDeck 1 (card_p (positions sampleDeck ! 1)) 0
       = Inl TypeError"
proof -
  have a: "int (length (positions sampleDeck)) \<le> 3" by (simp add: sampleDeck_def)
  have b: "(5::int) \<notin> {1, 2, 3, 4}" by simp
  from a b
    grading_fails_fast [of 3 sampleDeck 4 sampleEngine 100 "card_p (positions sampleDeck ! 1)"]
    grading_fails_fast [of "- 1" sampleDeck 4 sampleEngine 100 "card_p (positions sampleDeck ! 1)"]
    grading_fails_fast [of 1 sampleDeck 5 sampleEngine 100 "card_p (positions sampleDeck ! 1)"]
    grading_fails_fast [of 1 sampleDeck 0 sampleEngine 100 "card_p (positions sampleDeck ! 1)"]
  show ?thesis by simp
qed

end
